theory Spec2Isabelle
  imports Complex_Main "HOL-Library.Sublist" "HOL-Library.AList"
begin

section \<open>Strings\<close>

text \<open>
  A Python \<open>str\<close> is modelled as a \<open>string\<close> holding its UTF-8 bytes, so every text
  literal of the source is its byte sequence, and an ASCII keyword occurs in a message
  exactly where its bytes occur in the message's bytes. \<open>k in s\<close> on strings is
  contiguous containment, \<^const>\<open>sublist\<close>.

  \<open>str.lower\<close> belongs to Python's library, not to the program: the functions that call
  it take it as their parameter \<open>str_lower\<close>, and what is proved of them for every
  \<open>str_lower\<close> holds of the library's function. \<open>lower\<close> below is its model on the ASCII
  letters \<open>A\<close> to \<open>Z\<close>, used where a claim is about the keywords and triggers of the
  source. Python also lowercases cased letters outside ASCII, whose bytes \<open>lower\<close> leaves
  as they are; the only ASCII letters this produces are \<open>i\<close> (followed by a combining
  dot, from U+0130) and \<open>k\<close> (from U+212A), and no keyword or trigger of the source ends
  in \<open>i\<close> or contains \<open>k\<close>.
\<close>

definition lower_char :: "char \<Rightarrow> char" where
  "lower_char c =
     (case map_of (zip ''ABCDEFGHIJKLMNOPQRSTUVWXYZ'' ''abcdefghijklmnopqrstuvwxyz'') c of
        None \<Rightarrow> c
      | Some l \<Rightarrow> l)"

definition lower :: "string \<Rightarrow> string" where
  "lower s = map lower_char s"

text \<open>
  \<open>str.strip\<close> removes, at both ends, the characters for which \<open>str.isspace\<close> holds:
  U+0009 to U+000D, U+001C to U+0020, U+0085, U+00A0, U+1680, U+2000 to U+200A, U+2028,
  U+2029, U+202F, U+205F and U+3000. \<open>whitespace\<close> lists their UTF-8 encodings. In a
  UTF-8 string one of these encodings is a prefix or a suffix exactly when the first or
  the last character is that whitespace character.
\<close>

definition whitespace :: "string list" where
  "whitespace =
     [[CHR 0x09], [CHR 0x0A], [CHR 0x0B], [CHR 0x0C], [CHR 0x0D], [CHR 0x1C], [CHR 0x1D],
      [CHR 0x1E], [CHR 0x1F], [CHR 0x20], [CHR 0xC2, CHR 0x85], [CHR 0xC2, CHR 0xA0],
      [CHR 0xE1, CHR 0x9A, CHR 0x80], [CHR 0xE2, CHR 0x80, CHR 0x80],
      [CHR 0xE2, CHR 0x80, CHR 0x81], [CHR 0xE2, CHR 0x80, CHR 0x82],
      [CHR 0xE2, CHR 0x80, CHR 0x83], [CHR 0xE2, CHR 0x80, CHR 0x84],
      [CHR 0xE2, CHR 0x80, CHR 0x85], [CHR 0xE2, CHR 0x80, CHR 0x86],
      [CHR 0xE2, CHR 0x80, CHR 0x87], [CHR 0xE2, CHR 0x80, CHR 0x88],
      [CHR 0xE2, CHR 0x80, CHR 0x89], [CHR 0xE2, CHR 0x80, CHR 0x8A],
      [CHR 0xE2, CHR 0x80, CHR 0xA8], [CHR 0xE2, CHR 0x80, CHR 0xA9],
      [CHR 0xE2, CHR 0x80, CHR 0xAF], [CHR 0xE2, CHR 0x81, CHR 0x9F],
      [CHR 0xE3, CHR 0x80, CHR 0x80]]"

function lstrip :: "string \<Rightarrow> string" where
  "lstrip s =
     (case find (\<lambda>w. prefix w s) whitespace of
        None \<Rightarrow> s
      | Some w \<Rightarrow> lstrip (drop (length w) s))"
  by pat_completeness auto
termination
proof (relation "measure length")
  show "wf (measure length)"
    by simp
next
  fix s w :: string
  assume "find (\<lambda>w. prefix w s) whitespace = Some w"
  then have "w \<in> set whitespace" and "prefix w s"
    by (auto simp: find_Some_iff)
  then have "w \<noteq> []" and "length w \<le> length s"
    by (auto simp: whitespace_def prefix_length_le)
  then show "(drop (length w) s, s) \<in> measure length"
    by (cases w) auto
qed

function rstrip :: "string \<Rightarrow> string" where
  "rstrip s =
     (case find (\<lambda>w. suffix w s) whitespace of
        None \<Rightarrow> s
      | Some w \<Rightarrow> rstrip (take (length s - length w) s))"
  by pat_completeness auto
termination
proof (relation "measure length")
  show "wf (measure length)"
    by simp
next
  fix s w :: string
  assume "find (\<lambda>w. suffix w s) whitespace = Some w"
  then have "w \<in> set whitespace" and "suffix w s"
    by (auto simp: find_Some_iff)
  then have "w \<noteq> []" and "length w \<le> length s"
    by (auto simp: whitespace_def suffix_length_le)
  then show "(take (length s - length w) s, s) \<in> measure length"
    by (cases w) auto
qed

definition strip :: "string \<Rightarrow> string" where
  "strip s = rstrip (lstrip s)"

declare lstrip.simps [simp del] rstrip.simps [simp del]

section \<open>Exceptions, logging, the generation client\<close>

text \<open>
  Every exception the modelled code can raise derives from Python's \<open>Exception\<close>, which
  is what both \<open>except Exception\<close> handlers catch. \<open>APIError\<close> stands for whatever the
  client library raises (connection failure, rejected request, timeout), with its text.
\<close>

datatype exn =
    KeyError string
  | ValueError
  | IndexError
  | AttributeError
  | APIError string

datatype level = INFO | WARNING | ERROR

text \<open>
  A log record keeps the literal part of the logged f-string in \<open>msg\<close> and the exception
  whose \<open>str(e)\<close> is appended to it, if any, in \<open>exc\<close>.
\<close>

record log_record =
  level :: level
  msg :: string
  exc :: "exn option"

text \<open>
  The request of \<open>client.chat.completions.create\<close>; \<open>messages\<close> holds (role, content)
  pairs and \<open>temperature\<close> the decimal literal of the source. A completion is the list of
  its choices, each given by its \<open>message.content\<close> (\<open>None\<close> when the content is absent).
  The client is a parameter: one call either raises or returns a completion.
\<close>

record request =
  model :: string
  messages :: "(string \<times> string) list"
  max_tokens :: int
  temperature :: rat

record completion =
  choices :: "string option list"

type_synonym chat_client = "request \<Rightarrow> exn + completion"

record globals =
  LLM_ENABLED :: bool
  client :: "chat_client option"

text \<open>
  Module initialisation (lines 18 to 26): the credential read from the environment is
  absent (\<open>None\<close>) or a string; Python treats the empty string as false as well.
\<close>

definition module_globals ::
  "string option \<Rightarrow> (string \<Rightarrow> chat_client) \<Rightarrow> globals \<times> log_record list" where
  "module_globals OPENAI_API_KEY OpenAI =
     (case OPENAI_API_KEY of
        Some (k # ks) \<Rightarrow>
          (\<lparr>LLM_ENABLED = True, client = Some (OpenAI (k # ks))\<rparr>,
           [\<lparr>level = INFO, msg = ''OpenAI client initialized successfully'', exc = None\<rparr>])
      | _ \<Rightarrow>
          (\<lparr>LLM_ENABLED = False, client = None\<rparr>,
           [\<lparr>level = WARNING, msg = ''OpenAI API key not found. Running in mock mode.'',
             exc = None\<rparr>]))"

section \<open>The intent catalog\<close>

text \<open>
  A dictionary whose iteration order matters is an association list in insertion order.
  The key \<open>'keywords'\<close> of an intent is the field \<open>intent_keywords\<close>.
\<close>

record intent_data =
  intent_keywords :: "string list"
  system_prompt :: string
  sample_phrases :: "string list"

record PneumaFAQBot =
  intents :: "(string \<times> intent_data) list"

definition bot :: PneumaFAQBot where
  "bot = \<lparr>intents = [
    (''deals_and_offers'', \<lparr>
      intent_keywords = [''deal'', ''offer'', ''discount'', ''save'', ''sweet'', ''special'', ''promo'', ''coupon''],
      system_prompt =
        ''You are Pneuma's deals specialist. You help users discover and understan''
        @ ''d our current sweet-spot deals and exclusive offers.\<newline>''
        @ ''\<newline>Key facts about Pneuma deals:\<newline>''
        @ ''- We offer curated deals across dining, travel, electronics, and lifesty''
        @ ''le categories\<newline>- '' @ [CHR 0x22] @ ''Sweet-spot deals'' @ [CHR 0x22]
        @ '' are our signature high-value offers with 20-50% savings\<newline>''
        @ ''- Deals refresh daily with new partners joining regularly\<newline>''
        @ ''- Users can access deals through the Pneuma mobile app\<newline>''
        @ ''- We partner with trusted brands and verified merchants only\<newline>''
        @ ''\<newline>Keep responses:\<newline>- Enthusiastic but genuine about savi''
        @ ''ngs\<newline>- Focused on current value propositions\<newline>''
        @ ''- Brief and actionable\<newline>- Always direct users to check the app f''
        @ ''or latest offers\<newline>\<newline>If you don't know specific deal deta''
        @ ''ils, direct users to the app or support@pneuma.com.'',
      sample_phrases =
        [''What deals do you have today?'',
         ''Show me sweet spot offers'',
         ''Any discounts on dining?'',
         ''What's the best deal right now?'']\<rparr>),
    (''mileage_and_rewards'', \<lparr>
      intent_keywords = [''mile'', ''point'', ''transfer'', ''redeem'', ''reward'', ''loyalty'', ''earn'', ''accumulate''],
      system_prompt =
        ''You are Pneuma's rewards program expert. You help users understand how t''
        @ ''o earn, transfer, and maximize their points and miles.\<newline>''
        @ ''\<newline>Key facts about Pneuma rewards:\<newline>''
        @ ''- Users earn points on every purchase through partner merchants\<newline>''
        @ ''- Points can be transferred to 15+ airline and hotel partners\<newline>''
        @ ''- Transfer ratios vary by partner (typically 1:1 or 2:1)\<newline>''
        @ ''- Standard users: 25K points/month transfer limit\<newline>''
        @ ''- Premium users: 100K points/month transfer limit\<newline>''
        @ ''- Elite users: Unlimited transfers\<newline>''
        @ ''- Transfers process within 24-48 hours\<newline>''
        @ ''- Points expire after 18 months of account inactivity\<newline>''
        @ ''\<newline>Keep responses:\<newline>- Clear and step-by-step for transfer''
        @ ''s\<newline>- Specific about limits and timeframes\<newline>''
        @ ''- Educational about maximizing value\<newline>''
        @ ''- Always mention checking account settings for personal limits\<newline>''
        @ ''\<newline>If asked about specific transfer rates or partner details, dir''
        @ ''ect to the app's Rewards section.'',
      sample_phrases =
        [''How do I transfer miles?'',
         ''What's my transfer limit?'',
         ''Can I move points to Delta?'',
         ''How long do transfers take?'']\<rparr>),
    (''account_and_setup'', \<lparr>
      intent_keywords = [''account'', ''setup'', ''sign up'', ''register'', ''login'', ''getting started'', ''how to'', ''begin''],
      system_prompt =
        ''You are Pneuma's onboarding assistant. You help new users get started an''
        @ ''d existing users with account basics.\<newline>''
        @ ''\<newline>Key facts about Pneuma accounts:\<newline>''
        @ ''- Free to sign up with email or phone number\<newline>''
        @ ''- Available on iOS and Android\<newline>- Account verification required ''
        @ ''for rewards transfers\<newline>- Three tiers: Standard (free), Premium (''
        @ ''$9.99/month), Elite ($19.99/month)\<newline>''
        @ ''- Premium/Elite users get higher transfer limits and exclusive deals\<newline>''
        @ ''- Account settings allow customization of deal categories and notificati''
        @ ''ons\<newline>- Support available at support@pneuma.com for account issue''
        @ ''s\<newline>\<newline>Keep responses:\<newline>''
        @ ''- Welcoming and encouraging for new users\<newline>''
        @ ''- Step-by-step for setup instructions\<newline>''
        @ ''- Clear about different account tiers\<newline>''
        @ ''- Helpful for troubleshooting basic issues\<newline>''
        @ ''\<newline>For complex account problems, always direct to support@pneuma.''
        @ ''com.'',
      sample_phrases =
        [''How do I sign up?'',
         ''What is Pneuma?'',
         ''How do I get started?'',
         ''I can't log into my account'']\<rparr>)]\<rparr>"

section \<open>Classification\<close>

text \<open>The inner loop of \<open>classify_intent\<close>: one point for each keyword found.\<close>

fun keyword_score :: "string list \<Rightarrow> string \<Rightarrow> int \<Rightarrow> int" where
  "keyword_score [] message_lower score = score"
| "keyword_score (keyword # rest) message_lower score =
     keyword_score rest message_lower
       (if sublist keyword message_lower then score + 1 else score)"

text \<open>
  The outer loop: \<open>intent_scores[intent_name] = score\<close>. Assigning to a key a dictionary
  already has keeps the key's position, which is what \<^const>\<open>AList.update\<close> does.
\<close>

fun score_intents ::
  "(string \<times> intent_data) list \<Rightarrow> string \<Rightarrow> (string \<times> int) list \<Rightarrow> (string \<times> int) list" where
  "score_intents [] message_lower intent_scores = intent_scores"
| "score_intents ((intent_name, intent_data) # rest) message_lower intent_scores =
     score_intents rest message_lower
       (AList.update intent_name (keyword_score (intent_keywords intent_data) message_lower 0)
          intent_scores)"

text \<open>Lines 116 to 125: \<open>message.lower()\<close> and the scoring loop.\<close>

definition intent_scores_with ::
  "(string \<Rightarrow> string) \<Rightarrow> PneumaFAQBot \<Rightarrow> string \<Rightarrow> (string \<times> int) list" where
  "intent_scores_with str_lower self message =
     score_intents (intents self) (str_lower message) []"

text \<open>
  Python's \<open>max(iterable, key=...)\<close>: the first element is the candidate, a later one
  replaces it only when its key is strictly greater, and an empty iterable raises
  \<open>ValueError\<close>.
\<close>

fun max_from :: "('a \<Rightarrow> int) \<Rightarrow> 'a \<Rightarrow> 'a list \<Rightarrow> 'a" where
  "max_from key best [] = best"
| "max_from key best (x # xs) = max_from key (if key best < key x then x else best) xs"

definition py_max :: "('a \<Rightarrow> int) \<Rightarrow> 'a list \<Rightarrow> exn + 'a" where
  "py_max key xs = (case xs of [] \<Rightarrow> Inl ValueError | x # rest \<Rightarrow> Inr (max_from key x rest))"

definition classify_intent_with ::
  "(string \<Rightarrow> string) \<Rightarrow> PneumaFAQBot \<Rightarrow> string \<Rightarrow> exn + string" where
  "classify_intent_with str_lower self message =
     (let scores = intent_scores_with str_lower self message in
      case py_max (\<lambda>v. v) (map snd scores) of
        Inl e \<Rightarrow> Inl e
      | Inr highest \<Rightarrow>
          if highest = 0 then Inr ''account_and_setup''
          else (case py_max (\<lambda>x. snd x) scores of
                  Inl e \<Rightarrow> Inl e
                | Inr x \<Rightarrow> Inr (fst x)))"

text \<open>The scores and the classifier with \<open>lower\<close> for \<open>str.lower\<close>.\<close>

abbreviation intent_scores :: "PneumaFAQBot \<Rightarrow> string \<Rightarrow> (string \<times> int) list" where
  "intent_scores \<equiv> intent_scores_with lower"

abbreviation classify_intent :: "PneumaFAQBot \<Rightarrow> string \<Rightarrow> exn + string" where
  "classify_intent \<equiv> classify_intent_with lower"

section \<open>The fallback responder\<close>

text \<open>
  An entry of the local table \<open>mock_responses\<close> is a dictionary with the keys
  \<open>'default'\<close> (field \<open>mock_default\<close>) and \<open>'keywords'\<close> (field \<open>mock_keywords\<close>);
  the code reads the first by subscript (a missing key raises) and the second with
  \<open>.get('keywords', {})\<close>, so both are optional here.
\<close>

record mock_entry =
  mock_default :: "string option"
  mock_keywords :: "(string \<times> string) list option"

definition mock_responses :: "(string \<times> mock_entry) list" where
  "mock_responses = [
    (''deals_and_offers'', \<lparr>
      mock_default = Some (
        [CHR 0xEF, CHR 0xA3, CHR 0xBF, CHR 0xC3, CHR 0xBC, CHR 0xC3, CHR 0xAE, CHR 0xE2, CHR 0x80, CHR 0xA2]
        @ '' Great question about deals! Here are today's sweet-spot offers:\<newline>''
        @ [CHR 0xE2, CHR 0x80, CHR 0x9A, CHR 0xC3, CHR 0x84, CHR 0xC2, CHR 0xA2]
        @ '' 25% off dining at partner restaurants\<newline>''
        @ [CHR 0xE2, CHR 0x80, CHR 0x9A, CHR 0xC3, CHR 0x84, CHR 0xC2, CHR 0xA2]
        @ '' Double points on travel bookings\<newline>''
        @ [CHR 0xE2, CHR 0x80, CHR 0x9A, CHR 0xC3, CHR 0x84, CHR 0xC2, CHR 0xA2]
        @ '' Flash electronics sale up to 40% off\<newline>''
        @ ''\<newline>Check the Pneuma app for the complete list - deals refresh dai''
        @ ''ly! ''
        @ [CHR 0xEF, CHR 0xA3, CHR 0xBF, CHR 0xC3, CHR 0xBC, CHR 0xC3, CHR 0xAC, CHR 0xC2, CHR 0xB1]),
      mock_keywords = Some [
        (''today'',
          ''Today's hot deals include dining discounts, travel rewards, and tech sav''
          @ ''ings! Open your Pneuma app to see all current sweet-spot offers. ''
          @ [CHR 0xEF, CHR 0xA3, CHR 0xBF, CHR 0xC3, CHR 0xBC, CHR 0xC3, CHR 0xA9, CHR 0xC3, CHR 0x98]),
        (''dining'',
          [CHR 0xEF, CHR 0xA3, CHR 0xBF, CHR 0xC3, CHR 0xBC, CHR 0xC3, CHR 0xA7, CHR 0xCE, CHR 0xA9, CHR 0xC3, CHR 0x94, CHR 0xE2, CHR 0x88, CHR 0x8F, CHR 0xC3, CHR 0xA8]
          @ '' Dining deals are amazing right now - 25% off at top restaurants plus do''
          @ ''uble points! Check the Deals section in your Pneuma app.''),
        (''best'',
          ''Our best deals right now: Premium restaurant discounts, travel point mul''
          @ ''tipliers, and electronics flash sales. All verified partners with real s''
          @ ''avings!'')]\<rparr>),
    (''mileage_and_rewards'', \<lparr>
      mock_default = Some (
        [CHR 0xE2, CHR 0x80, CHR 0x9A, CHR 0xC3, CHR 0xBA, CHR 0xC3, CHR 0xA0, CHR 0xC3, CHR 0x94, CHR 0xE2, CHR 0x88, CHR 0x8F, CHR 0xC3, CHR 0xA8]
        @ '' Transferring miles with Pneuma is simple:\<newline>''
        @ ''\<newline>1. Open the Rewards section in your app\<newline>''
        @ ''2. Select 'Transfer Points'' @ [CHR 0x27]
        @ ''\<newline>3. Choose your airline/hotel partner\<newline>''
        @ ''4. Enter amount and confirm\<newline>\<newline>''
        @ ''Transfers process in 24-48 hours. Your current limits are visible in Acc''
        @ ''ount Settings.''),
      mock_keywords = Some [
        (''transfer'',
          ''Points transfer is easy! Go to Rewards ''
          @ [CHR 0xE2, CHR 0x80, CHR 0x9A, CHR 0xC3, CHR 0x9C, CHR 0xC3, CHR 0xAD]
          @ '' Transfer Points in your app. Choose from 15+ airline and hotel partners''
          @ ''. Most transfers complete within 24-48 hours.''),
        (''limit'',
          ''Transfer limits depend on your tier:\<newline>''
          @ [CHR 0xE2, CHR 0x80, CHR 0x9A, CHR 0xC3, CHR 0x84, CHR 0xC2, CHR 0xA2]
          @ '' Standard: 25,000 points/month\<newline>''
          @ [CHR 0xE2, CHR 0x80, CHR 0x9A, CHR 0xC3, CHR 0x84, CHR 0xC2, CHR 0xA2]
          @ '' Premium: 100,000 points/month\<newline>''
          @ [CHR 0xE2, CHR 0x80, CHR 0x9A, CHR 0xC3, CHR 0x84, CHR 0xC2, CHR 0xA2]
          @ '' Elite: Unlimited\<newline>\<newline>Check Account ''
          @ [CHR 0xE2, CHR 0x80, CHR 0x9A, CHR 0xC3, CHR 0x9C, CHR 0xC3, CHR 0xAD]
          @ '' Transfer Settings for your current limits.''),
        (''delta'',
          ''Yes! Delta is one of our top transfer partners. Typical ratio is 1:1 for''
          @ '' points to SkyMiles. Transfer through the Rewards section in your Pneuma''
          @ '' app.'')]\<rparr>),
    (''account_and_setup'', \<lparr>
      mock_default = Some (
        ''Welcome to Pneuma! ''
        @ [CHR 0xEF, CHR 0xA3, CHR 0xBF, CHR 0xC3, CHR 0xBC, CHR 0xC3, CHR 0xA9, CHR 0xC3, CHR 0xA2]
        @ '' Getting started is easy:\<newline>\<newline>''
        @ ''1. Download the Pneuma app (iOS/Android)\<newline>''
        @ ''2. Sign up with email or phone\<newline>3. Verify your account\<newline>''
        @ ''4. Start browsing deals and earning points!\<newline>''
        @ ''\<newline>Need help? Contact support@pneuma.com''),
      mock_keywords = Some [
        (''sign up'',
          ''Signing up is free and takes 2 minutes! Download the Pneuma app, enter y''
          @ ''our email/phone, verify your account, and you're ready to start saving! ''
          @ [CHR 0xEF, CHR 0xA3, CHR 0xBF, CHR 0xC3, CHR 0xBC, CHR 0xC3, CHR 0xB6, CHR 0xC3, CHR 0x84]),
        (''pneuma'',
          ''Pneuma helps you get maximum value from your spending through curated de''
          @ ''als and rewards. We're your personal savings sidekick with trusted partn''
          @ ''er discounts! ''
          @ [CHR 0xEF, CHR 0xA3, CHR 0xBF, CHR 0xC3, CHR 0xBC, CHR 0xC3, CHR 0xB2, CHR 0xC3, CHR 0xA4]),
        (''login'',
          ''Having trouble logging in? Try resetting your password in the app, or co''
          @ ''ntact our support team at support@pneuma.com - they'll get you sorted qu''
          @ ''ickly!'')]\<rparr>)]"

text \<open>The loop over \<open>.items()\<close> with its early return.\<close>

fun first_keyed :: "(string \<times> string) list \<Rightarrow> string \<Rightarrow> string option" where
  "first_keyed [] message_lower = None"
| "first_keyed ((keyword, response) # rest) message_lower =
     (if sublist keyword message_lower then Some response
      else first_keyed rest message_lower)"

text \<open>
  The methods run in the module's environment. No method assigns to a module global or to
  an attribute of the bot, so the globals \<open>g\<close> are read only and the one thing a call can
  change is the log: a call takes the log and returns its result, an exception or a
  value, with the log it leaves.
\<close>

type_synonym 'a call = "log_record list \<Rightarrow> (exn + 'a) \<times> log_record list"

text \<open>
  \<open>mock_responses.get(intent, mock_responses['account_and_setup'])\<close> evaluates its
  default argument first, so a table without that entry raises whatever \<open>intent\<close> is.
\<close>

definition get_mock_response_with ::
  "(string \<Rightarrow> string) \<Rightarrow> PneumaFAQBot \<Rightarrow> globals \<Rightarrow> string \<Rightarrow> string \<Rightarrow> string call" where
  "get_mock_response_with str_lower self g message intent lg =
     (case map_of mock_responses ''account_and_setup'' of
        None \<Rightarrow> (Inl (KeyError ''account_and_setup''), lg)
      | Some fallback \<Rightarrow>
          (let intent_responses =
                 (case map_of mock_responses intent of None \<Rightarrow> fallback | Some r \<Rightarrow> r);
               message_lower = str_lower message
           in case first_keyed
                     (case mock_keywords intent_responses of None \<Rightarrow> [] | Some d \<Rightarrow> d)
                     message_lower of
                Some response \<Rightarrow> (Inr response, lg)
              | None \<Rightarrow>
                  (case mock_default intent_responses of
                     None \<Rightarrow> (Inl (KeyError ''default''), lg)
                   | Some response \<Rightarrow> (Inr response, lg))))"

text \<open>The fallback responder with \<open>lower\<close> for \<open>str.lower\<close>.\<close>

abbreviation get_mock_response ::
  "PneumaFAQBot \<Rightarrow> globals \<Rightarrow> string \<Rightarrow> string \<Rightarrow> string call" where
  "get_mock_response \<equiv> get_mock_response_with lower"

section \<open>Generation and orchestration\<close>

definition chat_request :: "string \<Rightarrow> string \<Rightarrow> request" where
  "chat_request prompt message =
     \<lparr>model = ''gpt-3.5-turbo'',
      messages = [(''system'', prompt), (''user'', message)],
      max_tokens = 200,
      temperature = 7 / 10\<rparr>"

text \<open>Line 152: \<open>response.choices[0].message.content.strip()\<close>.\<close>

definition first_choice_text :: "completion \<Rightarrow> exn + string" where
  "first_choice_text response =
     (case choices response of
        [] \<Rightarrow> Inl IndexError
      | None # _ \<Rightarrow> Inl AttributeError
      | Some content # _ \<Rightarrow> Inr (strip content))"

text \<open>Lines 142 to 152: the call and the reading of its result.\<close>

definition create_and_read :: "chat_client \<Rightarrow> request \<Rightarrow> exn + string" where
  "create_and_read c req =
     (case c req of Inl e \<Rightarrow> Inl e | Inr response \<Rightarrow> first_choice_text response)"

text \<open>The body of the \<open>try\<close> block of \<open>generate_response\<close>.\<close>

definition llm_reply :: "PneumaFAQBot \<Rightarrow> chat_client \<Rightarrow> string \<Rightarrow> string \<Rightarrow> exn + string" where
  "llm_reply self c message intent =
     (case map_of (intents self) intent of
        None \<Rightarrow> Inl (KeyError intent)
      | Some intent_data \<Rightarrow>
          create_and_read c (chat_request (system_prompt intent_data) message))"

definition generate_response ::
  "PneumaFAQBot \<Rightarrow> globals \<Rightarrow> string \<Rightarrow> string \<Rightarrow> string call" where
  "generate_response self g message intent lg =
     (if \<not> LLM_ENABLED g then get_mock_response self g message intent lg
      else case client g of
        None \<Rightarrow> get_mock_response self g message intent lg
      | Some c \<Rightarrow>
          (case llm_reply self c message intent of
             Inr reply \<Rightarrow> (Inr reply, lg)
           | Inl e \<Rightarrow>
               get_mock_response self g message intent
                 (lg @ [\<lparr>level = ERROR, msg = ''OpenAI API error: '', exc = Some e\<rparr>])))"

text \<open>
  The dictionary returned by \<open>process_message\<close>; the failure dictionary has no
  \<open>'intent'\<close> key.
\<close>

record response_result =
  success :: bool
  intent :: "string option"
  response :: string

definition processing_failed :: "exn \<Rightarrow> log_record list \<Rightarrow> response_result \<times> log_record list" where
  "processing_failed e lg =
     (\<lparr>success = False, intent = None,
       response = ''Sorry, I had trouble processing that. Could you try asking again? ''
         @ ''If the issue persists, contact support@pneuma.com''\<rparr>,
      lg @ [\<lparr>level = ERROR, msg = ''Error processing message: '', exc = Some e\<rparr>])"

definition process_message ::
  "PneumaFAQBot \<Rightarrow> globals \<Rightarrow> string \<Rightarrow> log_record list
     \<Rightarrow> response_result \<times> log_record list" where
  "process_message self g message lg =
     (case classify_intent self message of
        Inl e \<Rightarrow> processing_failed e lg
      | Inr classified \<Rightarrow>
          (case generate_response self g message classified
                  (lg @ [\<lparr>level = INFO,
                          msg = ''Classified intent: '' @ classified
                                @ '' for message: '' @ message,
                          exc = None\<rparr>]) of
             (Inl e, lg') \<Rightarrow> processing_failed e lg'
           | (Inr reply, lg') \<Rightarrow>
               (\<lparr>success = True, intent = Some classified, response = reply\<rparr>, lg')))"


section \<open>Specification-level notions\<close>

text \<open>
  Following the spec's words (section 4.2): the intents that share the maximum score, in
  catalog iteration order, and the first of them.
\<close>

definition tied :: "(string \<times> int) list \<Rightarrow> (string \<times> int) list" where
  "tied scores = filter (\<lambda>x. snd x = Max (snd ` set scores)) scores"

definition first_tied :: "(string \<times> int) list \<Rightarrow> string option" where
  "first_tied scores = (case tied scores of [] \<Rightarrow> None | x # _ \<Rightarrow> Some (fst x))"

text \<open>
  Following the spec's words (section 4.4): the reply of the first keyed trigger, in the
  order of definition, that occurs in the normalized message, and the default reply when
  there is none.
\<close>

definition first_trigger_reply :: "(string \<times> string) list \<Rightarrow> string \<Rightarrow> string \<Rightarrow> string" where
  "first_trigger_reply keyed fallback_default normalized =
     (case find (\<lambda>entry. sublist (fst entry) normalized) keyed of
        Some entry \<Rightarrow> snd entry
      | None \<Rightarrow> fallback_default)"

text \<open>
  Following the spec's words (section 8): the fallback table's replies for an intent, its
  default reply together with the values of its keyed replies.
\<close>

definition fallback_replies :: "string \<Rightarrow> string set" where
  "fallback_replies name =
     (case map_of mock_responses name of
        None \<Rightarrow> {}
      | Some entry \<Rightarrow>
          set_option (mock_default entry)
          \<union> (case mock_keywords entry of None \<Rightarrow> {} | Some keyed \<Rightarrow> snd ` set keyed))"

text \<open>The reply a given trigger is keyed to in the fallback table of an intent.\<close>

definition keyed_reply :: "string \<Rightarrow> string \<Rightarrow> string option" where
  "keyed_reply name trigger =
     (case map_of mock_responses name of
        None \<Rightarrow> None
      | Some entry \<Rightarrow>
          (case mock_keywords entry of None \<Rightarrow> None | Some keyed \<Rightarrow> map_of keyed trigger))"

section \<open>Lowercasing\<close>

lemma lower_char_idem: "lower_char (lower_char c) = lower_char c"
proof (cases "c \<in> set ''ABCDEFGHIJKLMNOPQRSTUVWXYZ''")
  case True
  then show ?thesis
    by (auto simp: lower_char_def)
next
  case False
  then have "map_of (zip ''ABCDEFGHIJKLMNOPQRSTUVWXYZ'' ''abcdefghijklmnopqrstuvwxyz'') c = None"
    by (simp add: map_of_eq_None_iff)
  then have "lower_char c = c"
    by (simp add: lower_char_def)
  then show ?thesis
    by simp
qed

lemma lower_idem: "lower (lower s) = lower s"
  by (simp add: lower_def lower_char_idem)

section \<open>Scores\<close>

lemma keyword_score_count:
  "keyword_score ks m s = s + int (length (filter (\<lambda>k. sublist k m) ks))"
  by (induction ks arbitrary: s) auto

lemma keyword_score_nonneg: "0 \<le> keyword_score ks m 0"
  by (simp add: keyword_score_count)

lemma keyword_score_zero:
  "keyword_score ks m 0 = 0 \<longleftrightarrow> (\<forall>k \<in> set ks. \<not> sublist k m)"
  by (simp add: keyword_score_count filter_empty_conv)

lemma score_intents_names:
  "fst ` set (score_intents cat m acc) = fst ` set cat \<union> fst ` set acc"
  by (induction cat m acc rule: score_intents.induct) (auto simp: dom_update)

lemma update_values:
  "snd ` set (AList.update k v al) \<subseteq> insert v (snd ` set al)"
  by (induction al) auto

lemma score_intents_all_zero:
  assumes "\<forall>x \<in> set cat. \<forall>k \<in> set (intent_keywords (snd x)). \<not> sublist k m"
      and "snd ` set acc \<subseteq> {0}"
  shows "snd ` set (score_intents cat m acc) \<subseteq> {0}"
  using assms
proof (induction cat m acc rule: score_intents.induct)
  case (1 m acc)
  then show ?case by simp
next
  case (2 name d rest m acc)
  have z: "keyword_score (intent_keywords d) m 0 = 0"
    using "2.prems"(1) by (simp add: keyword_score_zero)
  have "snd ` set (AList.update name 0 acc) \<subseteq> {0}"
    using update_values [of name 0 acc] "2.prems"(2) by auto
  with 2 z show ?case by simp
qed

lemma score_intents_nonempty: "cat \<noteq> [] \<or> acc \<noteq> [] \<Longrightarrow> score_intents cat m acc \<noteq> []"
  using score_intents_names [of cat m acc] by (cases cat; cases acc) auto

section \<open>Python's max\<close>

lemma max_from_mem: "max_from key b xs \<in> set (b # xs)"
  by (induction xs arbitrary: b) (auto split: if_splits)

lemma max_from_key: "key (max_from key b xs) = fold max (map key xs) (key b)"
  by (induction xs arbitrary: b) (auto simp: max_def)

lemma max_from_Max: "key (max_from key b xs) = Max (key ` set (b # xs))"
proof -
  have "Max (set (map key (b # xs))) = fold max (map key xs) (key b)"
    using Max.set_eq_fold [of "key b" "map key xs"] by simp
  then show ?thesis
    by (simp add: max_from_key)
qed

lemma max_from_ge: "key b \<le> key (max_from key b xs)"
  by (simp add: max_from_Max)

lemma max_from_first:
  "find (\<lambda>x. key x = key (max_from key b xs)) (b # xs) = Some (max_from key b xs)"
proof (induction xs arbitrary: b)
  case Nil
  then show ?case by simp
next
  case (Cons x xs)
  show ?case
  proof (cases "key b < key x")
    case True
    then have r: "max_from key b (x # xs) = max_from key x xs" by simp
    have "key x \<le> key (max_from key x xs)" by (rule max_from_ge)
    with True have "key b \<noteq> key (max_from key x xs)" by simp
    then show ?thesis
      unfolding r using Cons.IH [of x] by simp
  next
    case False
    then have r: "max_from key b (x # xs) = max_from key b xs" by simp
    have ge: "key b \<le> key (max_from key b xs)" by (rule max_from_ge)
    show ?thesis
    proof (cases "key b = key (max_from key b xs)")
      case True
      then show ?thesis
        unfolding r using Cons.IH [of b] by simp
    next
      case neq: False
      with ge False have "key x \<noteq> key (max_from key b xs)" by simp
      with neq show ?thesis
        unfolding r using Cons.IH [of b] by simp
    qed
  qed
qed

lemma find_filter_hd:
  "find P xs = (case filter P xs of [] \<Rightarrow> None | x # _ \<Rightarrow> Some x)"
  by (induction xs) auto

lemma py_max_values:
  "vs \<noteq> [] \<Longrightarrow> py_max (\<lambda>v. v) vs = Inr (Max (set vs))"
  using max_from_Max [of "\<lambda>v. v" "hd vs" "tl vs"]
  by (cases vs) (simp_all add: py_max_def)

lemma py_max_first_tied:
  "scores \<noteq> [] \<Longrightarrow>
     map_option (\<lambda>x. Inr (fst x)) (find (\<lambda>x. snd x = Max (snd ` set scores)) scores)
       = Some (case py_max (\<lambda>x. snd x) scores of Inl e \<Rightarrow> Inl e | Inr x \<Rightarrow> Inr (fst x))"
proof (cases scores)
  case Nil
  assume "scores \<noteq> []"
  with Nil show ?thesis by simp
next
  case (Cons b xs)
  have "find (\<lambda>x. snd x = Max (snd ` set (b # xs))) (b # xs) = Some (max_from snd b xs)"
    using max_from_first [of snd b xs] by (simp only: max_from_Max [of snd b xs])
  with Cons show ?thesis
    by (simp add: py_max_def)
qed

section \<open>Classification, in general\<close>

lemma classify_intent_unfold:
  assumes "intent_scores self m \<noteq> []"
  shows "classify_intent self m =
           (if Max (snd ` set (intent_scores self m)) = 0 then Inr ''account_and_setup''
            else case py_max (\<lambda>x. snd x) (intent_scores self m) of
                   Inl e \<Rightarrow> Inl e | Inr x \<Rightarrow> Inr (fst x))"
  using assms py_max_values [of "map snd (intent_scores self m)"]
  by (simp add: classify_intent_with_def Let_def)

lemma intent_scores_nonempty: "intents self \<noteq> [] \<Longrightarrow> intent_scores self m \<noteq> []"
  by (simp add: intent_scores_with_def score_intents_nonempty)

lemma classify_intent_range:
  assumes "intents self \<noteq> []"
  shows "\<exists>n. classify_intent self m = Inr n
           \<and> (n = ''account_and_setup'' \<or> n \<in> fst ` set (intents self))"
proof -
  let ?S = "intent_scores self m"
  have ne: "?S \<noteq> []"
    using assms by (rule intent_scores_nonempty)
  then obtain b xs where S: "?S = b # xs"
    by (cases ?S) auto
  have "max_from snd b xs \<in> set ?S"
    using max_from_mem [of snd b xs] S by simp
  then have "fst (max_from snd b xs) \<in> fst ` set ?S"
    by (rule imageI)
  then have "fst (max_from snd b xs) \<in> fst ` set (intents self)"
    by (simp add: intent_scores_with_def score_intents_names)
  then show ?thesis
    using classify_intent_unfold [OF ne] S by (simp add: py_max_def)
qed

section \<open>The catalog of the bot\<close>

lemma bot_nonempty: "intents bot \<noteq> []"
  by (simp add: bot_def)

lemma bot_names:
  "fst ` set (intents bot) = {''deals_and_offers'', ''mileage_and_rewards'', ''account_and_setup''}"
  by (simp add: bot_def)

lemma intent_scores_bot:
  "intent_scores bot m =
     [(''deals_and_offers'',
         keyword_score [''deal'', ''offer'', ''discount'', ''save'', ''sweet'', ''special'',
                        ''promo'', ''coupon''] (lower m) 0),
      (''mileage_and_rewards'',
         keyword_score [''mile'', ''point'', ''transfer'', ''redeem'', ''reward'', ''loyalty'',
                        ''earn'', ''accumulate''] (lower m) 0),
      (''account_and_setup'',
         keyword_score [''account'', ''setup'', ''sign up'', ''register'', ''login'',
                        ''getting started'', ''how to'', ''begin''] (lower m) 0)]"
  by (simp add: intent_scores_with_def bot_def del: keyword_score.simps)

section \<open>Claims about classification\<close>

text \<open>
  C1. If no keyword of any intent occurs in the lowercased message, \<open>classify_intent\<close>
  returns \<open>'account_and_setup'\<close>. The catalog is any non-empty one, so the result does
  not depend on the order in which the intents are listed.
\<close>

theorem classify_default_when_no_keyword:
  assumes "intents self \<noteq> []"
      and "\<forall>x \<in> set (intents self). \<forall>k \<in> set (intent_keywords (snd x)).
             \<not> sublist k (lower message)"
  shows "classify_intent self message = Inr ''account_and_setup''"
proof -
  let ?S = "intent_scores self message"
  have ne: "?S \<noteq> []"
    using assms(1) by (rule intent_scores_nonempty)
  have sub: "snd ` set ?S \<subseteq> {0}"
    unfolding intent_scores_with_def
    by (rule score_intents_all_zero [OF assms(2)]) simp
  have "snd ` set ?S \<noteq> {}"
    using ne by simp
  with subset_singletonD [OF sub] have "snd ` set ?S = {0}"
    by simp
  then have "Max (snd ` set ?S) = 0"
    by simp
  then show ?thesis
    using classify_intent_unfold [OF ne] by simp
qed

theorem classify_default_when_no_keyword_witness:
  "intents bot \<noteq> []
   \<and> list_all (\<lambda>x. list_all (\<lambda>k. \<not> sublist k (lower ''asdkjasd random text''))
                          (intent_keywords (snd x))) (intents bot)
   \<and> classify_intent bot ''asdkjasd random text'' = Inr ''account_and_setup''"
proof -
  have h1: "intents bot \<noteq> []"
    by (simp add: bot_def)
  have h2: "\<forall>x \<in> set (intents bot). \<forall>k \<in> set (intent_keywords (snd x)).
              \<not> sublist k (lower ''asdkjasd random text'')"
    by (simp add: bot_def lower_def lower_char_def sublist_code)
  show ?thesis
    using h1 h2 classify_default_when_no_keyword [OF h1 h2] by (simp add: list_all_iff)
qed

text \<open>
  C2, as stated, fails on the empty message: all three intents share the maximum score
  0, the first of them in catalog order is \<open>'deals_and_offers'\<close>, and the code returns
  \<open>'account_and_setup'\<close>.
\<close>

theorem tie_break_all_zero_counterexample:
  "2 \<le> length (tied (intent_scores bot ''''))
   \<and> first_tied (intent_scores bot '''') = Some ''deals_and_offers''
   \<and> classify_intent bot '''' = Inr ''account_and_setup''"
  by (simp add: intent_scores_bot tied_def first_tied_def classify_intent_with_def py_max_def
        lower_def sublist_code)

text \<open>
  C2, amended. The catalog of the bot is iterated in the order \<open>deals_and_offers\<close>,
  \<open>mileage_and_rewards\<close>, \<open>account_and_setup\<close>, and whenever the maximum score is
  positive \<open>classify_intent\<close> returns the first intent in that order among those that
  reach the maximum.
\<close>

theorem tie_break_first_in_catalog_order:
  assumes "0 < Max (snd ` set (intent_scores bot message))"
  shows "map fst (intent_scores bot message)
           = [''deals_and_offers'', ''mileage_and_rewards'', ''account_and_setup'']
         \<and> (\<exists>n. first_tied (intent_scores bot message) = Some n
                \<and> classify_intent bot message = Inr n)"
proof -
  let ?S = "intent_scores bot message"
  have ne: "?S \<noteq> []"
    by (simp add: intent_scores_bot)
  have c: "classify_intent bot message
             = (case py_max (\<lambda>x. snd x) ?S of Inl e \<Rightarrow> Inl e | Inr x \<Rightarrow> Inr (fst x))"
    using classify_intent_unfold [OF ne] assms by simp
  have "map_option (\<lambda>x. Inr (fst x)) (find (\<lambda>x. snd x = Max (snd ` set ?S)) ?S)
          = Some (classify_intent bot message)"
    using py_max_first_tied [OF ne] c by simp
  then have "\<exists>n. first_tied ?S = Some n \<and> classify_intent bot message = Inr n"
    by (auto simp: first_tied_def tied_def find_filter_hd split: list.splits)
  moreover have "map fst ?S = [''deals_and_offers'', ''mileage_and_rewards'', ''account_and_setup'']"
    by (simp add: intent_scores_bot)
  ultimately show ?thesis
    by simp
qed

theorem tie_break_first_in_catalog_order_witness:
  "0 < Max (snd ` set (intent_scores bot ''deal mile''))
   \<and> map fst (intent_scores bot ''deal mile'')
       = [''deals_and_offers'', ''mileage_and_rewards'', ''account_and_setup'']
   \<and> (\<exists>n. first_tied (intent_scores bot ''deal mile'') = Some n
          \<and> classify_intent bot ''deal mile'' = Inr n)"
proof -
  have h: "0 < Max (snd ` set (intent_scores bot ''deal mile''))"
    by (simp add: intent_scores_bot lower_def lower_char_def sublist_code)
  show ?thesis
    using h tie_break_first_in_catalog_order [OF h] by simp
qed

text \<open>
  C3. For every message \<open>classify_intent\<close> returns, without raising, the name of one of
  the three intents of the catalog.
\<close>

theorem classify_total:
  "\<exists>n. classify_intent bot message = Inr n
       \<and> n \<in> fst ` set (intents bot)
       \<and> n \<in> {''deals_and_offers'', ''mileage_and_rewards'', ''account_and_setup''}"
  using classify_intent_range [OF bot_nonempty, of message] bot_names by auto


section \<open>The fallback table\<close>

lemma first_keyed_find:
  "first_keyed keyed m = map_option snd (find (\<lambda>entry. sublist (fst entry) m) keyed)"
  by (induction keyed m rule: first_keyed.induct) auto

lemma find_Some_mem: "find P xs = Some x \<Longrightarrow> x \<in> set xs"
  by (induction xs) (auto split: if_splits)

lemma first_trigger_reply_mem:
  "first_trigger_reply keyed d m \<in> insert d (snd ` set keyed)"
proof (cases "find (\<lambda>entry. sublist (fst entry) m) keyed")
  case None
  then show ?thesis
    by (simp add: first_trigger_reply_def)
next
  case (Some entry)
  then have "entry \<in> set keyed"
    by (rule find_Some_mem)
  with Some show ?thesis
    by (simp add: first_trigger_reply_def)
qed

lemma mock_entry_complete:
  "map_of mock_responses name = Some entry \<Longrightarrow>
     \<exists>d keyed. mock_default entry = Some d \<and> mock_keywords entry = Some keyed"
  by (auto simp: mock_responses_def split: if_splits)

lemma mock_account_entry: "\<exists>entry. map_of mock_responses ''account_and_setup'' = Some entry"
  by (simp add: mock_responses_def)

lemma mock_catalog_entry:
  "name \<in> {''deals_and_offers'', ''mileage_and_rewards'', ''account_and_setup''} \<Longrightarrow>
     \<exists>entry. map_of mock_responses name = Some entry"
  by (auto simp: mock_responses_def)

lemma get_mock_response_entry:
  assumes "map_of mock_responses ''account_and_setup'' = Some fb"
      and "(case map_of mock_responses name of None \<Rightarrow> fb | Some r \<Rightarrow> r) = entry"
      and "mock_default entry = Some d"
      and "mock_keywords entry = Some keyed"
  shows "get_mock_response_with str_lower self g m name lg
           = (Inr (first_trigger_reply keyed d (str_lower m)), lg)"
  using assms
  by (simp add: get_mock_response_with_def first_keyed_find first_trigger_reply_def
        split: option.splits)

lemma get_mock_response_known:
  assumes "map_of mock_responses name = Some entry"
      and "mock_default entry = Some d"
      and "mock_keywords entry = Some keyed"
  shows "get_mock_response_with str_lower self g m name lg
           = (Inr (first_trigger_reply keyed d (str_lower m)), lg)"
proof -
  obtain fb where fb: "map_of mock_responses ''account_and_setup'' = Some fb"
    using mock_account_entry by (rule exE)
  show ?thesis
    by (rule get_mock_response_entry [OF fb _ assms(2) assms(3)]) (simp add: assms(1))
qed

lemma get_mock_response_unknown:
  assumes "map_of mock_responses name = None"
  shows "get_mock_response_with str_lower self g m name lg
           = get_mock_response_with str_lower self' g' m ''account_and_setup'' lg"
  using assms mock_account_entry
  by (auto simp: get_mock_response_with_def)

lemma get_mock_response_in_replies:
  assumes "map_of mock_responses name = Some entry"
  shows "\<exists>r. (\<forall>self g lg. get_mock_response_with str_lower self g m name lg = (Inr r, lg))
           \<and> r \<in> fallback_replies name"
proof -
  obtain d keyed where e: "mock_default entry = Some d" "mock_keywords entry = Some keyed"
    using mock_entry_complete [OF assms] by (elim exE conjE)
  have r: "get_mock_response_with str_lower self g m name lg
             = (Inr (first_trigger_reply keyed d (str_lower m)), lg)" for self g lg
    by (rule get_mock_response_known [OF assms e])
  have "first_trigger_reply keyed d (str_lower m) \<in> fallback_replies name"
    using first_trigger_reply_mem [of keyed d "str_lower m"]
    by (simp add: fallback_replies_def assms e)
  with r show ?thesis
    by (intro exI conjI allI)
qed

lemma get_mock_response_total:
  "\<exists>r. \<forall>self g lg. get_mock_response_with str_lower self g m name lg = (Inr r, lg)"
proof (cases "map_of mock_responses name")
  case None
  obtain entry where a: "map_of mock_responses ''account_and_setup'' = Some entry"
    using mock_account_entry by (rule exE)
  obtain r where r: "\<forall>self g lg.
      get_mock_response_with str_lower self g m ''account_and_setup'' lg = (Inr r, lg)"
    using get_mock_response_in_replies [OF a, of str_lower m] by (elim exE conjE)
  have "get_mock_response_with str_lower self g m name lg = (Inr r, lg)" for self g lg
    using get_mock_response_unknown [OF None, of str_lower self g m lg self g] r by simp
  then show ?thesis
    by (intro exI allI)
next
  case (Some entry)
  obtain r where "\<forall>self g lg. get_mock_response_with str_lower self g m name lg = (Inr r, lg)"
    using get_mock_response_in_replies [OF Some, of str_lower m] by (elim exE conjE)
  then show ?thesis
    by (rule exI)
qed

section \<open>Claims about the fallback responder\<close>

text \<open>
  C4. For an intent name that is in the fallback table, \<open>get_mock_response\<close> returns the
  reply of the first keyed trigger, in the order of definition, that occurs in the
  lowercased message, and the intent's default reply when no trigger occurs.
\<close>

theorem fallback_first_trigger_or_default:
  assumes "map_of mock_responses name = Some entry"
  shows "\<exists>d keyed. mock_default entry = Some d \<and> mock_keywords entry = Some keyed
           \<and> get_mock_response self g message name lg
               = (Inr (first_trigger_reply keyed d (lower message)), lg)"
proof -
  obtain d keyed where e: "mock_default entry = Some d" "mock_keywords entry = Some keyed"
    using mock_entry_complete [OF assms] by (elim exE conjE)
  from e get_mock_response_known [OF assms e] show ?thesis
    by (intro exI conjI)
qed

theorem fallback_first_trigger_or_default_witness:
  "\<exists>entry d keyed.
      map_of mock_responses ''deals_and_offers'' = Some entry
      \<and> mock_default entry = Some d \<and> mock_keywords entry = Some keyed
      \<and> get_mock_response bot \<lparr>LLM_ENABLED = False, client = None\<rparr>
            ''What deals do you have today?'' ''deals_and_offers'' []
          = (Inr (first_trigger_reply keyed d (lower ''What deals do you have today?'')), [])"
proof -
  obtain entry where h: "map_of mock_responses ''deals_and_offers'' = Some entry"
    using mock_catalog_entry [of "''deals_and_offers''"] by auto
  from fallback_first_trigger_or_default
         [OF h, of bot "\<lparr>LLM_ENABLED = False, client = None\<rparr>"
            "''What deals do you have today?''" "[]"] h
  show ?thesis
    by (elim exE conjE) (intro exI conjI)
qed

text \<open>
  C5. For an intent name that is not in the fallback table, \<open>get_mock_response\<close> does not
  raise: it answers as it does for \<open>'account_and_setup'\<close>, with one of that intent's
  replies, chosen among that intent's keyed replies and default reply as in C4.
\<close>

theorem fallback_unknown_intent:
  assumes "map_of mock_responses name = None"
  shows "get_mock_response self g message name lg
           = get_mock_response self g message ''account_and_setup'' lg
         \<and> (\<exists>r. get_mock_response self g message name lg = (Inr r, lg)
                \<and> r \<in> fallback_replies ''account_and_setup'')
         \<and> (\<exists>entry d keyed.
                map_of mock_responses ''account_and_setup'' = Some entry
                \<and> mock_default entry = Some d \<and> mock_keywords entry = Some keyed
                \<and> get_mock_response self g message name lg
                    = (Inr (first_trigger_reply keyed d (lower message)), lg))"
proof -
  obtain entry where a: "map_of mock_responses ''account_and_setup'' = Some entry"
    using mock_account_entry by (rule exE)
  obtain d keyed where e: "mock_default entry = Some d" "mock_keywords entry = Some keyed"
    using mock_entry_complete [OF a] by (elim exE conjE)
  have eq: "get_mock_response self g message name lg
              = get_mock_response self g message ''account_and_setup'' lg"
    by (rule get_mock_response_unknown [OF assms])
  have k: "get_mock_response self g message ''account_and_setup'' lg
             = (Inr (first_trigger_reply keyed d (lower message)), lg)"
    by (rule get_mock_response_known [OF a e])
  have mem: "first_trigger_reply keyed d (lower message) \<in> fallback_replies ''account_and_setup''"
    using first_trigger_reply_mem [of keyed d "lower message"]
    by (simp add: fallback_replies_def a e)
  have c2: "\<exists>r. get_mock_response self g message name lg = (Inr r, lg)
              \<and> r \<in> fallback_replies ''account_and_setup''"
    using eq k mem by (intro exI [of _ "first_trigger_reply keyed d (lower message)"]) simp
  have c3: "\<exists>entry d keyed.
              map_of mock_responses ''account_and_setup'' = Some entry
              \<and> mock_default entry = Some d \<and> mock_keywords entry = Some keyed
              \<and> get_mock_response self g message name lg
                  = (Inr (first_trigger_reply keyed d (lower message)), lg)"
    using a e eq k by (intro exI [of _ entry] exI [of _ d] exI [of _ keyed]) simp
  from eq c2 c3 show ?thesis
    by (intro conjI)
qed

theorem fallback_unknown_intent_witness:
  "map_of mock_responses ''billing_question'' = None
   \<and> get_mock_response bot \<lparr>LLM_ENABLED = False, client = None\<rparr>
         ''I cannot login'' ''billing_question'' []
       = get_mock_response bot \<lparr>LLM_ENABLED = False, client = None\<rparr>
           ''I cannot login'' ''account_and_setup'' []
   \<and> (\<exists>r. get_mock_response bot \<lparr>LLM_ENABLED = False, client = None\<rparr>
              ''I cannot login'' ''billing_question'' [] = (Inr r, [])
          \<and> r \<in> fallback_replies ''account_and_setup'')
   \<and> (\<exists>entry d keyed.
          map_of mock_responses ''account_and_setup'' = Some entry
          \<and> mock_default entry = Some d \<and> mock_keywords entry = Some keyed
          \<and> get_mock_response bot \<lparr>LLM_ENABLED = False, client = None\<rparr>
                ''I cannot login'' ''billing_question'' []
              = (Inr (first_trigger_reply keyed d (lower ''I cannot login'')), []))"
proof -
  have h: "map_of mock_responses ''billing_question'' = None"
    by (simp add: mock_responses_def)
  show ?thesis
    using h fallback_unknown_intent
              [OF h, of bot "\<lparr>LLM_ENABLED = False, client = None\<rparr>" "''I cannot login''" "[]"]
    by (rule conjI)
qed

text \<open>
  C6. \<open>get_mock_response\<close> is a pure function of the message and the intent name. Two
  calls with the same message and intent name return the same reply whatever the bot
  object, the module globals and the log they run with; a call leaves the log as it found
  it; and it never raises. This holds for every lowercasing function, the library's
  \<open>str.lower\<close> among them.
\<close>

theorem fallback_pure_total:
  "\<exists>r. \<forall>self g lg self' g' lg'.
         get_mock_response_with str_lower self g message name lg = (Inr r, lg)
         \<and> get_mock_response_with str_lower self' g' message name lg' = (Inr r, lg')"
proof -
  obtain r where "\<forall>self g lg.
      get_mock_response_with str_lower self g message name lg = (Inr r, lg)"
    using get_mock_response_total [of str_lower message name] by (rule exE)
  then show ?thesis
    by (intro exI [of _ r] allI conjI) simp_all
qed

text \<open>
  The purity of \<open>get_mock_response\<close> is not shared by its caller: a failed generation
  attempt leaves an error record in the log, and the globals decide whether an attempt is
  made at all.
\<close>

lemma generate_response_writes_log:
  "snd (generate_response bot
          \<lparr>LLM_ENABLED = True, client = Some (\<lambda>req. Inl (APIError ''Request timed out.''))\<rparr>
          ''hello'' ''account_and_setup'' [])
     = [\<lparr>level = ERROR, msg = ''OpenAI API error: '',
         exc = Some (APIError ''Request timed out.'')\<rparr>]"
proof -
  obtain r where "\<forall>self g lg.
      get_mock_response self g ''hello'' ''account_and_setup'' lg = (Inr r, lg)"
    using get_mock_response_total [of lower "''hello''" "''account_and_setup''"] by (rule exE)
  then show ?thesis
    by (simp add: generate_response_def llm_reply_def create_and_read_def bot_def)
qed

section \<open>Claims about generation and orchestration\<close>

lemma classify_bot_entry:
  "\<exists>n entry. classify_intent bot m = Inr n \<and> map_of mock_responses n = Some entry"
proof -
  obtain n where n: "classify_intent bot m = Inr n"
      and "n = ''account_and_setup'' \<or> n \<in> fst ` set (intents bot)"
    using classify_intent_range [OF bot_nonempty, of m] by (elim exE conjE)
  then have "n \<in> {''deals_and_offers'', ''mileage_and_rewards'', ''account_and_setup''}"
    using bot_names by auto
  from mock_catalog_entry [OF this] obtain entry where "map_of mock_responses n = Some entry"
    by (rule exE)
  with n show ?thesis
    by (intro exI conjI)
qed

text \<open>
  C7. With generation unconfigured (\<open>LLM_ENABLED\<close> false or no client, which is what
  module initialisation sets when no credential is present), \<open>process_message\<close> returns
  \<open>success = True\<close>, the classified intent, and a reply that is the intent's default
  fallback reply or one of its keyed fallback replies.
\<close>

theorem process_unconfigured:
  assumes "\<not> LLM_ENABLED g \<or> client g = None"
  shows "\<exists>n r. classify_intent bot message = Inr n
           \<and> process_message bot g message lg
               = (\<lparr>success = True, intent = Some n, response = r\<rparr>,
                  lg @ [\<lparr>level = INFO,
                          msg = ''Classified intent: '' @ n @ '' for message: '' @ message,
                          exc = None\<rparr>])
           \<and> r \<in> fallback_replies n"
proof -
  obtain n entry where n: "classify_intent bot message = Inr n"
      and e: "map_of mock_responses n = Some entry"
    using classify_bot_entry [of message] by (elim exE conjE)
  obtain r where r: "\<forall>self g lg. get_mock_response self g message n lg = (Inr r, lg)"
      and mem: "r \<in> fallback_replies n"
    using get_mock_response_in_replies [OF e, of lower message] by (elim exE conjE)
  have "generate_response bot g message n lg' = (Inr r, lg')" for lg'
    using assms r by (auto simp: generate_response_def split: option.splits)
  then have "process_message bot g message lg
               = (\<lparr>success = True, intent = Some n, response = r\<rparr>,
                  lg @ [\<lparr>level = INFO,
                          msg = ''Classified intent: '' @ n @ '' for message: '' @ message,
                          exc = None\<rparr>])"
    by (simp add: process_message_def n)
  with n mem show ?thesis
    by (intro exI conjI)
qed

theorem process_unconfigured_witness:
  "LLM_ENABLED (fst (module_globals None (\<lambda>key req. Inl (APIError '''')))) = False
   \<and> (\<exists>n r. classify_intent bot ''What deals do you have today?'' = Inr n
          \<and> process_message bot
               (fst (module_globals None (\<lambda>key req. Inl (APIError ''''))))
               ''What deals do you have today?'' []
              = (\<lparr>success = True, intent = Some n, response = r\<rparr>,
                 [] @ [\<lparr>level = INFO,
                         msg = ''Classified intent: '' @ n @ '' for message: ''
                               @ ''What deals do you have today?'',
                         exc = None\<rparr>])
          \<and> r \<in> fallback_replies n)"
proof -
  let ?g = "fst (module_globals None (\<lambda>key req. Inl (APIError '''')))"
  have h: "\<not> LLM_ENABLED ?g \<or> client ?g = None"
    by (simp add: module_globals_def)
  have "LLM_ENABLED ?g = False"
    by (simp add: module_globals_def)
  then show ?thesis
    using process_unconfigured [OF h, of "''What deals do you have today?''" "[]"]
    by (rule conjI)
qed

text \<open>
  For an intent of the catalog the \<open>try\<close> block raises whenever the external call
  raises or its completion cannot be read.
\<close>

lemma llm_reply_call_raises:
  assumes "map_of (intents self) name = Some d"
      and "create_and_read c (chat_request (system_prompt d) m) = Inl e"
  shows "llm_reply self c m name = Inl e"
  using assms by (simp add: llm_reply_def)

lemma create_and_read_raises: "c req = Inl e \<Longrightarrow> create_and_read c req = Inl e"
  by (simp add: create_and_read_def)

text \<open>
  C8. With generation configured, if the generation attempt for the classified intent
  raises (the external call raises, or its result cannot be read), \<open>process_message\<close>
  still returns \<open>success = True\<close> with the classified intent and one of that intent's
  fallback replies; the exception only appears in an error-level log record.
\<close>

theorem generation_failure_absorbed:
  assumes "LLM_ENABLED g"
      and "client g = Some c"
      and "classify_intent bot message = Inr n"
      and "llm_reply bot c message n = Inl e"
  shows "\<exists>r. process_message bot g message lg
             = (\<lparr>success = True, intent = Some n, response = r\<rparr>,
                lg @ [\<lparr>level = INFO,
                        msg = ''Classified intent: '' @ n @ '' for message: '' @ message,
                        exc = None\<rparr>,
                      \<lparr>level = ERROR, msg = ''OpenAI API error: '', exc = Some e\<rparr>])
           \<and> r \<in> fallback_replies n"
proof -
  obtain n' entry where "classify_intent bot message = Inr n'"
      and "map_of mock_responses n' = Some entry"
    using classify_bot_entry [of message] by (elim exE conjE)
  with assms(3) have en: "map_of mock_responses n = Some entry"
    by simp
  obtain r where r: "\<forall>self g lg. get_mock_response self g message n lg = (Inr r, lg)"
      and mem: "r \<in> fallback_replies n"
    using get_mock_response_in_replies [OF en, of lower message] by (elim exE conjE)
  have "generate_response bot g message n lg'
          = (Inr r, lg' @ [\<lparr>level = ERROR, msg = ''OpenAI API error: '', exc = Some e\<rparr>])"
    for lg'
    using assms(1,2,4) r by (simp add: generate_response_def)
  then have "process_message bot g message lg
               = (\<lparr>success = True, intent = Some n, response = r\<rparr>,
                  lg @ [\<lparr>level = INFO,
                          msg = ''Classified intent: '' @ n @ '' for message: '' @ message,
                          exc = None\<rparr>,
                        \<lparr>level = ERROR, msg = ''OpenAI API error: '', exc = Some e\<rparr>])"
    by (simp add: process_message_def assms(3))
  with mem show ?thesis
    by (intro exI conjI)
qed

theorem generation_failure_absorbed_witness:
  "\<exists>r. process_message bot
          \<lparr>LLM_ENABLED = True, client = Some (\<lambda>req. Inl (APIError ''Request timed out.''))\<rparr>
          ''Any discounts on dining?'' []
        = (\<lparr>success = True, intent = Some ''deals_and_offers'', response = r\<rparr>,
           [\<lparr>level = INFO,
             msg = ''Classified intent: '' @ ''deals_and_offers'' @ '' for message: ''
                   @ ''Any discounts on dining?'',
             exc = None\<rparr>,
            \<lparr>level = ERROR, msg = ''OpenAI API error: '',
             exc = Some (APIError ''Request timed out.'')\<rparr>])
      \<and> r \<in> fallback_replies ''deals_and_offers''"
proof -
  let ?c = "\<lambda>req :: request. (Inl (APIError ''Request timed out.'') :: exn + completion)"
  let ?g = "\<lparr>LLM_ENABLED = True, client = Some ?c\<rparr>"
  have h1: "LLM_ENABLED ?g"
    by simp
  have h2: "client ?g = Some ?c"
    by simp
  have h3: "classify_intent bot ''Any discounts on dining?'' = Inr ''deals_and_offers''"
    by (simp add: classify_intent_with_def intent_scores_bot py_max_def lower_def
          lower_char_def sublist_code)
  have h4: "llm_reply bot ?c ''Any discounts on dining?'' ''deals_and_offers''
              = Inl (APIError ''Request timed out.'')"
    by (simp add: llm_reply_def create_and_read_def bot_def)
  show ?thesis
    using generation_failure_absorbed [OF h1 h2 h3 h4, of "[]"] by simp
qed

text \<open>
  C9, as stated, fails: for \<open>"How do I transfer my miles to Delta?"\<close> the fallback reply
  is not the one keyed by \<open>delta\<close>.
\<close>

theorem delta_scenario_counterexample:
  "keyed_reply ''mileage_and_rewards'' ''delta'' \<noteq> None
   \<and> map_option Inr (keyed_reply ''mileage_and_rewards'' ''delta'')
       \<noteq> Some (fst (get_mock_response bot \<lparr>LLM_ENABLED = False, client = None\<rparr>
                       ''How do I transfer my miles to Delta?'' ''mileage_and_rewards'' []))"
  by (simp add: keyed_reply_def get_mock_response_with_def mock_responses_def lower_def
        lower_char_def sublist_code)

text \<open>
  C9, amended. For \<open>"How do I transfer my miles to Delta?"\<close> the scores are 0, 2 and 0,
  \<open>classify_intent\<close> returns \<open>'mileage_and_rewards'\<close>, and with generation
  unconfigured the reply is the one keyed by \<open>transfer\<close>, the first trigger of that
  intent in the order of definition that occurs in the message.
\<close>

theorem delta_scenario:
  "intent_scores bot ''How do I transfer my miles to Delta?''
     = [(''deals_and_offers'', 0), (''mileage_and_rewards'', 2), (''account_and_setup'', 0)]
   \<and> classify_intent bot ''How do I transfer my miles to Delta?''
       = Inr ''mileage_and_rewards''
   \<and> map_option Inr (keyed_reply ''mileage_and_rewards'' ''transfer'')
       = Some (fst (get_mock_response bot g ''How do I transfer my miles to Delta?''
                      ''mileage_and_rewards'' lg))
   \<and> generate_response bot \<lparr>LLM_ENABLED = False, client = None\<rparr>
         ''How do I transfer my miles to Delta?'' ''mileage_and_rewards'' lg
       = get_mock_response bot \<lparr>LLM_ENABLED = False, client = None\<rparr>
           ''How do I transfer my miles to Delta?'' ''mileage_and_rewards'' lg"
proof -
  have s: "intent_scores bot ''How do I transfer my miles to Delta?''
             = [(''deals_and_offers'', 0), (''mileage_and_rewards'', 2),
                (''account_and_setup'', 0)]"
    by (simp add: intent_scores_bot lower_def lower_char_def sublist_code)
  have c: "classify_intent bot ''How do I transfer my miles to Delta?''
             = Inr ''mileage_and_rewards''"
    by (simp add: classify_intent_with_def s py_max_def)
  have f: "map_option Inr (keyed_reply ''mileage_and_rewards'' ''transfer'')
             = Some (fst (get_mock_response bot g ''How do I transfer my miles to Delta?''
                            ''mileage_and_rewards'' lg))"
    by (simp add: keyed_reply_def get_mock_response_with_def mock_responses_def lower_def
          lower_char_def sublist_code)
  have g: "generate_response bot \<lparr>LLM_ENABLED = False, client = None\<rparr>
             ''How do I transfer my miles to Delta?'' ''mileage_and_rewards'' lg
           = get_mock_response bot \<lparr>LLM_ENABLED = False, client = None\<rparr>
               ''How do I transfer my miles to Delta?'' ''mileage_and_rewards'' lg"
    by (simp add: generate_response_def)
  from s c f g show ?thesis
    by (intro conjI)
qed

section \<open>Dependence on the message through its lowercased form\<close>

lemma classify_intent_same_lower:
  "str_lower m1 = str_lower m2 \<Longrightarrow>
     classify_intent_with str_lower self m1 = classify_intent_with str_lower self m2"
  by (simp add: classify_intent_with_def intent_scores_with_def)

lemma get_mock_response_same_lower:
  assumes "str_lower m1 = str_lower m2"
  shows "get_mock_response_with str_lower self g m1 name lg
           = get_mock_response_with str_lower self g m2 name lg"
  unfolding get_mock_response_with_def assms by (rule refl)

text \<open>
  C10. \<open>classify_intent\<close> and \<open>get_mock_response\<close> depend on the message only through
  its lowercased form, whatever function \<open>str_lower\<close> does the lowercasing: two messages
  with the same lowercased form get the same intent and the same fallback reply; and a
  message and its lowercased form get the same intent and the same fallback reply
  whenever lowercasing the lowercased message changes nothing, as is the case for
  \<open>str.lower\<close>.
\<close>

theorem case_insensitive:
  "(str_lower m1 = str_lower m2 \<longrightarrow>
      classify_intent_with str_lower self m1 = classify_intent_with str_lower self m2
      \<and> get_mock_response_with str_lower self g m1 name lg
          = get_mock_response_with str_lower self g m2 name lg)
   \<and> (str_lower (str_lower m) = str_lower m \<longrightarrow>
      classify_intent_with str_lower self (str_lower m) = classify_intent_with str_lower self m
      \<and> get_mock_response_with str_lower self g (str_lower m) name lg
          = get_mock_response_with str_lower self g m name lg)"
  using classify_intent_same_lower [of str_lower m1 m2 self]
    get_mock_response_same_lower [of str_lower m1 m2 self g name lg]
    classify_intent_same_lower [of str_lower "str_lower m" m self]
    get_mock_response_same_lower [of str_lower "str_lower m" m self g name lg]
  by simp

theorem case_insensitive_witness:
  "lower ''What DEALS do you have Today?'' = lower ''what deals do you have today?''
   \<and> classify_intent bot ''What DEALS do you have Today?''
       = classify_intent bot ''what deals do you have today?''
   \<and> get_mock_response bot \<lparr>LLM_ENABLED = False, client = None\<rparr>
         ''What DEALS do you have Today?'' ''deals_and_offers'' []
       = get_mock_response bot \<lparr>LLM_ENABLED = False, client = None\<rparr>
           ''what deals do you have today?'' ''deals_and_offers'' []
   \<and> lower (lower ''What DEALS do you have Today?'') = lower ''What DEALS do you have Today?''
   \<and> classify_intent bot (lower ''What DEALS do you have Today?'')
       = classify_intent bot ''What DEALS do you have Today?''
   \<and> get_mock_response bot \<lparr>LLM_ENABLED = False, client = None\<rparr>
         (lower ''What DEALS do you have Today?'') ''deals_and_offers'' []
       = get_mock_response bot \<lparr>LLM_ENABLED = False, client = None\<rparr>
           ''What DEALS do you have Today?'' ''deals_and_offers'' []"
proof -
  have h1: "lower ''What DEALS do you have Today?'' = lower ''what deals do you have today?''"
    by (simp add: lower_def lower_char_def)
  have h2: "lower (lower ''What DEALS do you have Today?'')
              = lower ''What DEALS do you have Today?''"
    by (rule lower_idem)
  note t = case_insensitive
             [of lower "''What DEALS do you have Today?''" "''what deals do you have today?''"
                bot "\<lparr>LLM_ENABLED = False, client = None\<rparr>" "''deals_and_offers''" "[]"
                "''What DEALS do you have Today?''"]
  note same = t [THEN conjunct1, THEN mp, OF h1]
  note own = t [THEN conjunct2, THEN mp, OF h2]
  from h1 same [THEN conjunct1] same [THEN conjunct2]
       h2 own [THEN conjunct1] own [THEN conjunct2]
  show ?thesis
    by (intro conjI)
qed

end
